theory Spec2Isabelle
  imports Main
begin

section \<open>The Database session of monsql/db.py\<close>

text \<open>
  The class \<open>Database\<close> owns a backend connection (\<open>self.__db\<close>), one cursor opened on it
  at construction (\<open>self.__cursor\<close>), a dictionary from table names to Table objects
  (\<open>self.__table_map\<close>) and a transaction mode. Its methods call the driver
  (\<open>cursor()\<close>, \<open>execute(sql)\<close>, \<open>commit()\<close>, \<open>close()\<close>) and the dialect hooks of the
  concrete subclass (\<open>get_table_obj\<close>, \<open>list_tables\<close>, \<open>truncate_table\<close>).

  The driver is not part of the repository. The connection is represented by the history
  of the calls made on it and on its cursors; what a call answers is a parameter of the
  model, a function of that history.
\<close>

subsection \<open>Driver calls and errors\<close>

text \<open>A cursor is named by the number of cursors opened on the connection before it.\<close>

datatype event =
    DbCursor
  | CursorExecute nat string
  | DbCommit
  | DbClose

text \<open>
  \<open>MonSQLException\<close> is the one exception class the module raises, with its message.
  \<open>BackendError\<close> is an exception of the driver, passed through unchanged. \<open>KeyError\<close>
  is the dictionary lookup of a missing key.
\<close>

datatype 'e error =
    MonSQLException string
  | BackendError 'e
  | KeyError string

text \<open>
  The parameters of the model: \<open>raises h ev\<close> is the exception the driver throws when the
  call \<open>ev\<close> is made after the history \<open>h\<close>, if any; \<open>list_tables h\<close> is the answer of
  the abstract method \<open>list_tables\<close> (documented as "a list of lower case table names"),
  which only reads the backend.
\<close>

record 'e backend =
  raises :: "event list \<Rightarrow> event \<Rightarrow> 'e option"
  list_tables :: "event list \<Rightarrow> string list"

subsection \<open>The session state\<close>

type_synonym ref = nat

text \<open>
  A Table object as the spec describes it: it owns a table name and borrows the shared
  cursor of the session. The class \<open>Table\<close> itself is imported from another module.
\<close>

record table =
  table_name :: string
  table_cursor :: nat

text \<open>
  \<open>heap\<close> is the store of the Table objects constructed so far: a reference is an index
  into it, and two references denote the same object exactly when they are equal.
  \<open>TRANSACTION_MODE\<close> comes from a missing module, so the mode is a type parameter.
\<close>

record 'm database =
  db :: "event list"
  cursor :: nat
  table_map :: "string \<rightharpoonup> ref"
  mode :: 'm
  heap :: "table list"

type_synonym ('e, 'a, 'm) outcome = "('e error + 'a) \<times> 'm database"

subsection \<open>The driver primitives\<close>

definition issue :: "'e backend \<Rightarrow> event \<Rightarrow> 'm database \<Rightarrow> ('e, unit, 'm) outcome" where
  "issue B ev s =
     (case raises B (db s) ev of
        Some e \<Rightarrow> (Inl (BackendError e), s\<lparr>db := db s @ [ev]\<rparr>)
      | None \<Rightarrow> (Inr (), s\<lparr>db := db s @ [ev]\<rparr>))"

definition cursors :: "event list \<Rightarrow> nat" where
  "cursors h = length (filter (\<lambda>ev. ev = DbCursor) h)"

definition db_cursor :: "'e backend \<Rightarrow> 'm database \<Rightarrow> ('e, nat, 'm) outcome" where
  "db_cursor B s =
     (case issue B DbCursor s of
        (Inl e, s') \<Rightarrow> (Inl e, s')
      | (Inr _, s') \<Rightarrow> (Inr (cursors (db s)), s'))"

definition cursor_execute :: "'e backend \<Rightarrow> nat \<Rightarrow> string \<Rightarrow> 'm database \<Rightarrow> ('e, unit, 'm) outcome" where
  "cursor_execute B c sql s = issue B (CursorExecute c sql) s"

definition db_commit :: "'e backend \<Rightarrow> 'm database \<Rightarrow> ('e, unit, 'm) outcome" where
  "db_commit B s = issue B DbCommit s"

definition db_close :: "'e backend \<Rightarrow> 'm database \<Rightarrow> ('e, unit, 'm) outcome" where
  "db_close B s = issue B DbClose s"

subsection \<open>Strings\<close>

text \<open>\<open>str.lower()\<close> on a byte string: the letters A to Z become a to z.\<close>

definition lower_char :: "char \<Rightarrow> char" where
  "lower_char c =
     (case map_of (zip ''ABCDEFGHIJKLMNOPQRSTUVWXYZ'' ''abcdefghijklmnopqrstuvwxyz'') c of
        Some l \<Rightarrow> l
      | None \<Rightarrow> c)"

definition lower :: "string \<Rightarrow> string" where
  "lower s = map lower_char s"

text \<open>\<open>sep.join(xs)\<close>.\<close>

fun join :: "string \<Rightarrow> string list \<Rightarrow> string" where
  "join sep [] = []"
| "join sep [x] = x"
| "join sep (x # y # ys) = x @ sep @ join sep (y # ys)"

subsection \<open>The methods of Database\<close>

text \<open>\<open>__init__\<close>: opens the shared cursor; the table map starts empty.\<close>

definition Database_init :: "'e backend \<Rightarrow> event list \<Rightarrow> 'm \<Rightarrow> 'e error + 'm database" where
  "Database_init B conn m =
     (case raises B conn DbCursor of
        Some e \<Rightarrow> Inl (BackendError e)
      | None \<Rightarrow>
          Inr \<lparr>db = conn @ [DbCursor], cursor = cursors conn, table_map = Map.empty,
               mode = m, heap = []\<rparr>)"

text \<open>
  Modelled from the spec: \<open>get_table_obj\<close> is an abstract method of the source (its body
  is \<open>pass\<close>), supplied by each concrete backend. The spec says that it constructs the
  Table Handle of a name: a new object, which shares the session's cursor.
\<close>

definition get_table_obj :: "string \<Rightarrow> 'm database \<Rightarrow> ref \<times> 'm database" where
  "get_table_obj name s =
     (length (heap s),
      s\<lparr>heap := heap s @ [\<lparr>table_name = name, table_cursor = cursor s\<rparr>]\<rparr>)"

definition ensure_table_obj :: "string \<Rightarrow> 'm database \<Rightarrow> 'm database" where
  "ensure_table_obj name s =
     (if \<not> (name \<in> dom (table_map s))
      then (case get_table_obj name s of
              (t, s') \<Rightarrow> s'\<lparr>table_map := (table_map s')(name \<mapsto> t)\<rparr>)
      else s)"

definition get :: "string \<Rightarrow> 'm database \<Rightarrow> ('e, ref, 'm) outcome" where
  "get name s =
     (let s' = ensure_table_obj name s
      in case table_map s' name of
           Some t \<Rightarrow> (Inr t, s')
         | None \<Rightarrow> (Inl (KeyError name), s'))"

definition close :: "'e backend \<Rightarrow> 'm database \<Rightarrow> ('e, unit, 'm) outcome" where
  "close B s =
     (case db_close B s of
        (Inl e, s') \<Rightarrow> (Inl e, s')
      | (Inr _, s') \<Rightarrow> (Inr (), s'\<lparr>table_map := Map.empty\<rparr>))"

definition commit :: "'e backend \<Rightarrow> 'm database \<Rightarrow> ('e, unit, 'm) outcome" where
  "commit B s = db_commit B s"

definition set_foreign_key_check :: "'e backend \<Rightarrow> bool \<Rightarrow> 'm database \<Rightarrow> ('e, unit, 'm) outcome" where
  "set_foreign_key_check B to_check s =
     (if to_check
      then (case db_cursor B s of
              (Inl e, s') \<Rightarrow> (Inl e, s')
            | (Inr c, s') \<Rightarrow> cursor_execute B c ''SET foreign_key_checks = 1;'' s')
      else (case db_cursor B s of
              (Inl e, s') \<Rightarrow> (Inl e, s')
            | (Inr c, s') \<Rightarrow> cursor_execute B c ''SET foreign_key_checks = 0;'' s'))"

definition is_table_existed :: "'e backend \<Rightarrow> string \<Rightarrow> 'm database \<Rightarrow> bool" where
  "is_table_existed B tablename s =
     (let all_tablenames = list_tables B (db s);
          tablename' = lower tablename
      in if tablename' \<in> set all_tablenames then True else False)"

definition drop_table :: "'e backend \<Rightarrow> string \<Rightarrow> bool \<Rightarrow> 'm database \<Rightarrow> ('e, unit, 'm) outcome" where
  "drop_table B tablename silent s =
     (if \<not> silent \<and> \<not> is_table_existed B tablename s
      then (Inl (MonSQLException (''TABLE '' @ tablename @ '' DOES NOT EXIST'')), s)
      else (case cursor_execute B (cursor s) (''DROP TABLE IF EXISTS '' @ tablename) s of
              (Inl e, s') \<Rightarrow> (Inl e, s')
            | (Inr _, s') \<Rightarrow> db_commit B s'))"

text \<open>
  \<open>create_table\<close> in the order of the source: the existence check (with the drop or the
  raise), the column specification (with the primary-key check), then the statement and
  the commit. \<open>primary_key=None\<close> is \<open>None\<close>, a sequence \<open>pk\<close> is \<open>Some pk\<close>.
\<close>

definition create_table ::
  "'e backend \<Rightarrow> string \<Rightarrow> string list \<Rightarrow> string list option \<Rightarrow> bool \<Rightarrow> 'm database
     \<Rightarrow> ('e, unit, 'm) outcome" where
  "create_table B tablename columns primary_key force_recreate s =
     (case (if is_table_existed B tablename s
            then (if force_recreate
                  then drop_table B tablename False s
                  else (Inl (MonSQLException ''TABLE ALREADY EXISTS''), s))
            else (Inr (), s)) of
        (Inl e, s1) \<Rightarrow> (Inl e, s1)
      | (Inr _, s1) \<Rightarrow>
          (case (case primary_key of
                   None \<Rightarrow> Inr (join '','' columns)
                 | Some pk \<Rightarrow>
                     if length pk = 0
                     then Inl (MonSQLException ''PRIMARY KEY MUST AT LEAST CONTAINS ONE COLUMN'')
                     else Inr (join '','' columns @ '',PRIMARY KEY('' @ join '','' pk @ '')'')) of
             Inl e \<Rightarrow> (Inl e, s1)
           | Inr columns_specs \<Rightarrow>
               (case cursor_execute B (cursor s1)
                       (''CREATE TABLE '' @ tablename @ ''('' @ columns_specs @ '')'') s1 of
                  (Inl e, s2) \<Rightarrow> (Inl e, s2)
                | (Inr _, s2) \<Rightarrow> db_commit B s2)))"

subsection \<open>Sequences of calls on one session\<close>

text \<open>
  A caller's use of a session is a sequence of method calls. An exception ends the call
  that raised it and leaves the session as it was at that point; the caller may go on.
\<close>

datatype call =
    Get string
  | Close
  | Commit
  | SetForeignKeyCheck bool
  | IsTableExisted string
  | CreateTable string "string list" "string list option" bool
  | DropTable string bool

fun step :: "'e backend \<Rightarrow> call \<Rightarrow> 'm database \<Rightarrow> 'm database" where
  "step B (Get name) s = snd (get name s :: ('e, ref, 'm) outcome)"
| "step B Close s = snd (close B s)"
| "step B Commit s = snd (commit B s)"
| "step B (SetForeignKeyCheck to_check) s = snd (set_foreign_key_check B to_check s)"
| "step B (IsTableExisted tablename) s = s"
| "step B (CreateTable tablename columns primary_key force_recreate) s =
     snd (create_table B tablename columns primary_key force_recreate s)"
| "step B (DropTable tablename silent) s = snd (drop_table B tablename silent s)"

fun run :: "'e backend \<Rightarrow> call list \<Rightarrow> 'm database \<Rightarrow> 'm database" where
  "run B [] s = s"
| "run B (c # cs) s = run B cs (step B c s)"

subsection \<open>A driver to run the model on\<close>

text \<open>
  A driver that never raises and keeps its tables in memory: \<open>CREATE TABLE name(...)\<close>
  adds the lower-cased name, \<open>DROP TABLE IF EXISTS name\<close> removes it.
\<close>

fun memory_tables :: "string list \<Rightarrow> event list \<Rightarrow> string list" where
  "memory_tables ts [] = ts"
| "memory_tables ts (CursorExecute c sql # h) =
     memory_tables
       (if take 13 sql = ''CREATE TABLE ''
        then lower (takeWhile (\<lambda>x. x \<noteq> CHR ''('') (drop 13 sql)) # ts
        else if take 21 sql = ''DROP TABLE IF EXISTS ''
        then removeAll (lower (drop 21 sql)) ts
        else ts) h"
| "memory_tables ts (ev # h) = memory_tables ts h"

definition memory_backend :: "unit backend" where
  "memory_backend = \<lparr>raises = (\<lambda>h ev. None), list_tables = memory_tables []\<rparr>"

text \<open>
  Two sessions on that driver: a new one, and one in which the table \<open>Users\<close> was created
  and the handle of \<open>users\<close> was fetched.
\<close>

definition new_session :: "unit database" where
  "new_session =
     \<lparr>db = [DbCursor], cursor = 0, table_map = Map.empty, mode = (), heap = []\<rparr>"

definition users_session :: "unit database" where
  "users_session =
     \<lparr>db = [DbCursor,
             CursorExecute 0 ''CREATE TABLE Users(id INT,name TEXT,PRIMARY KEY(id))'',
             DbCommit],
      cursor = 0, table_map = [''users'' \<mapsto> 0], mode = (),
      heap = [\<lparr>table_name = ''users'', table_cursor = 0\<rparr>]\<rparr>"

subsection \<open>The two halves of create\_table\<close>

text \<open>
  For the proofs, the body of \<open>create_table\<close> is read in two halves, each stated here on
  its own: the existence check (lines 149 to 153 of the source), and the primary-key
  check followed by the statement and the commit (lines 155 to 164). The lemma
  \<open>create_table_phases\<close> shows that \<open>create_table\<close> is the first followed by the second.
\<close>

definition create_table_check ::
  "'e backend \<Rightarrow> string \<Rightarrow> bool \<Rightarrow> 'm database \<Rightarrow> ('e, unit, 'm) outcome" where
  "create_table_check B tablename force_recreate s =
     (if is_table_existed B tablename s
      then (if force_recreate
            then drop_table B tablename False s
            else (Inl (MonSQLException ''TABLE ALREADY EXISTS''), s))
      else (Inr (), s))"

definition create_table_emit ::
  "'e backend \<Rightarrow> string \<Rightarrow> string list \<Rightarrow> string list option \<Rightarrow> 'm database
     \<Rightarrow> ('e, unit, 'm) outcome" where
  "create_table_emit B tablename columns primary_key s =
     (if primary_key = Some []
      then (Inl (MonSQLException ''PRIMARY KEY MUST AT LEAST CONTAINS ONE COLUMN''), s)
      else (case issue B (CursorExecute (cursor s)
                   (''CREATE TABLE '' @ tablename @ ''('' @ join '','' columns @
                      (case primary_key of
                         None \<Rightarrow> []
                       | Some pk \<Rightarrow> '',PRIMARY KEY('' @ join '','' pk @ '')'') @ '')'')) s of
              (Inl e, s2) \<Rightarrow> (Inl e, s2)
            | (Inr _, s2) \<Rightarrow> issue B DbCommit s2))"

subsection \<open>Invariants of a session\<close>

text \<open>Every reference in the table map denotes a constructed object.\<close>

definition allocated :: "'m database \<Rightarrow> bool" where
  "allocated s = (\<forall>n h. table_map s n = Some h \<longrightarrow> h < length (heap s))"

text \<open>A handle is retired when its object exists and the table map no longer holds it.\<close>

definition retired :: "ref \<Rightarrow> 'm database \<Rightarrow> bool" where
  "retired h s = (h < length (heap s) \<and> (\<forall>n. table_map s n \<noteq> Some h))"

section \<open>Basic facts\<close>

lemmas driver_defs = cursor_execute_def db_commit_def db_close_def db_cursor_def issue_def

lemma lower_char_idem: "lower_char (lower_char c) = lower_char c"
  by (simp add: lower_char_def)

lemma lower_idem: "lower (lower n) = lower n"
  by (simp add: lower_def lower_char_idem)

subsection \<open>The two example sessions\<close>

lemma new_session_init: "Database_init memory_backend [] () = Inr new_session"
  by (simp add: Database_init_def new_session_def memory_backend_def cursors_def)

lemma memory_backend_quiet: "\<forall>h ev. raises memory_backend h ev = None"
  by (simp add: memory_backend_def)

lemma create_users:
  "create_table memory_backend ''Users'' [''id INT'', ''name TEXT''] (Some [''id'']) False
     new_session =
   (Inr (), new_session\<lparr>db := [DbCursor,
             CursorExecute 0 ''CREATE TABLE Users(id INT,name TEXT,PRIMARY KEY(id))'',
             DbCommit]\<rparr>)"
  by (simp add: create_table_def is_table_existed_def driver_defs new_session_def
        memory_backend_def)

lemma users_session_run:
  "run memory_backend
       [CreateTable ''Users'' [''id INT'', ''name TEXT''] (Some [''id'']) False, Get ''users'']
       new_session = users_session"
  by (simp add: create_users get_def ensure_table_obj_def get_table_obj_def)
     (simp add: new_session_def users_session_def)

lemma users_tables: "list_tables memory_backend (db users_session) = [''users'']"
proof -
  have "memory_tables []
          [DbCursor, CursorExecute 0 ''CREATE TABLE Users(id INT,name TEXT,PRIMARY KEY(id))'',
           DbCommit] = [lower ''Users'']"
    by simp
  moreover have "lower ''Users'' = ''users''"
    by (simp add: lower_def lower_char_def)
  ultimately show ?thesis
    by (simp add: users_session_def memory_backend_def)
qed

lemma users_existed:
  "is_table_existed memory_backend ''users'' users_session"
  "is_table_existed memory_backend ''USERS'' users_session"
  "\<not> is_table_existed memory_backend ''orders'' users_session"
  "\<not> is_table_existed memory_backend ''missing'' users_session"
  by (simp_all add: is_table_existed_def users_tables lower_def lower_char_def)

lemma users_cursor: "cursor users_session = 0"
  by (simp add: users_session_def)

subsection \<open>What each method leaves alone\<close>

text \<open>Only \<open>get\<close> and \<open>close\<close> touch the table map, and only \<open>get\<close> constructs objects.\<close>

lemma issue_frame:
  "table_map (snd (issue B ev s)) = table_map s"
  "heap (snd (issue B ev s)) = heap s"
  "cursor (snd (issue B ev s)) = cursor s"
  "db (snd (issue B ev s)) = db s @ [ev]"
  by (simp_all add: issue_def split: option.splits)

lemma drop_table_frame:
  "table_map (snd (drop_table B n silent s)) = table_map s"
  "heap (snd (drop_table B n silent s)) = heap s"
  by (simp_all add: drop_table_def driver_defs split: option.splits)

lemma issue_frameD:
  "issue B ev s = (r, s') \<Longrightarrow>
     table_map s' = table_map s \<and> heap s' = heap s \<and> cursor s' = cursor s"
  by (auto simp add: issue_def split: option.splits)

lemma drop_table_frameD:
  "drop_table B n silent s = (r, s') \<Longrightarrow>
     table_map s' = table_map s \<and> heap s' = heap s \<and> cursor s' = cursor s"
  by (auto simp add: drop_table_def driver_defs split: option.splits if_splits)

lemma create_table_frameD:
  assumes "create_table B n cols pk force s = (r, s')"
  shows "table_map s' = table_map s \<and> heap s' = heap s \<and> cursor s' = cursor s"
proof -
  obtain r1 s1 where pre:
    "(if is_table_existed B n s
      then (if force then drop_table B n False s
            else (Inl (MonSQLException ''TABLE ALREADY EXISTS''), s))
      else (Inr (), s)) = (r1, s1)"
    by (cases "(if is_table_existed B n s
      then (if force then drop_table B n False s
            else (Inl (MonSQLException ''TABLE ALREADY EXISTS''), s))
      else (Inr (), s))")
  have s1: "table_map s1 = table_map s \<and> heap s1 = heap s \<and> cursor s1 = cursor s"
    using pre by (auto split: if_splits dest: drop_table_frameD)
  show ?thesis
  proof (cases r1)
    case (Inl e)
    with assms pre s1 show ?thesis by (simp add: create_table_def)
  next
    case (Inr u)
    note r1 = this
    show ?thesis
    proof (cases "pk = Some []")
      case True
      with assms pre s1 r1 show ?thesis by (simp add: create_table_def)
    next
      case False
      then obtain sql where body:
        "create_table B n cols pk force s =
           (case cursor_execute B (cursor s1) sql s1 of
              (Inl e, s2) \<Rightarrow> (Inl e, s2)
            | (Inr _, s2) \<Rightarrow> db_commit B s2)"
        using pre r1 by (cases pk) (auto simp add: create_table_def)
      obtain r2 s2 where ex: "issue B (CursorExecute (cursor s1) sql) s1 = (r2, s2)"
        by (cases "issue B (CursorExecute (cursor s1) sql) s1")
      obtain r3 s3 where cm: "issue B DbCommit s2 = (r3, s3)"
        by (cases "issue B DbCommit s2")
      from assms body ex cm have "s' = s2 \<or> s' = s3"
        by (cases r2) (auto simp add: cursor_execute_def db_commit_def)
      with issue_frameD [OF ex] issue_frameD [OF cm] s1 show ?thesis by auto
    qed
  qed
qed

lemma create_table_frame:
  "table_map (snd (create_table B n cols pk force s)) = table_map s"
  "heap (snd (create_table B n cols pk force s)) = heap s"
  using create_table_frameD [of B n cols pk force s] by (simp_all add: prod_eq_iff)

lemma issue_ok: "issue B ev s = (Inr u, s') \<Longrightarrow> s' = s\<lparr>db := db s @ [ev]\<rparr>"
  by (auto simp add: issue_def split: option.splits)

lemma issue_mode:
  "issue B ev (s\<lparr>mode := m\<rparr>) = (fst (issue B ev s), (snd (issue B ev s))\<lparr>mode := m\<rparr>)"
  by (simp add: issue_def split: option.splits)

lemma drop_table_ok:
  "drop_table B n silent s = (Inr u, s') \<Longrightarrow>
     s' = s\<lparr>db := db s @ [CursorExecute (cursor s) (''DROP TABLE IF EXISTS '' @ n), DbCommit]\<rparr>"
  by (auto simp add: drop_table_def driver_defs split: option.splits if_splits)

lemma is_table_existed_mode:
  "is_table_existed B n (s\<lparr>mode := m\<rparr>) = is_table_existed B n s"
  by (simp add: is_table_existed_def)

lemma drop_table_mode:
  "drop_table B n silent (s\<lparr>mode := m\<rparr>) =
     (fst (drop_table B n silent s), (snd (drop_table B n silent s))\<lparr>mode := m\<rparr>)"
  by (simp add: drop_table_def driver_defs is_table_existed_def split: option.splits)

text \<open>
  The body of \<open>create_table\<close> in two halves: the existence check with its drop or raise,
  and then the primary-key check with the statement and the commit.
\<close>

lemma create_table_phases:
  "create_table B n cols pk force s =
     (case create_table_check B n force s of
        (Inl e, s1) \<Rightarrow> (Inl e, s1)
      | (Inr _, s1) \<Rightarrow> create_table_emit B n cols pk s1)"
proof (cases "create_table_check B n force s")
  case (Pair r1 s1)
  then have "(if is_table_existed B n s
            then (if force then drop_table B n False s
                  else (Inl (MonSQLException ''TABLE ALREADY EXISTS''), s))
            else (Inr (), s)) = (r1, s1)"
    by (simp add: create_table_check_def)
  then have "create_table B n cols pk force s =
     (case (r1, s1) of
        (Inl e, s1) \<Rightarrow> (Inl e, s1)
      | (Inr _, s1) \<Rightarrow> create_table_emit B n cols pk s1)"
    unfolding create_table_def by (cases r1; cases pk)
      (simp_all add: create_table_emit_def driver_defs split: option.splits)
  with Pair show ?thesis by simp
qed

lemma create_table_check_mode:
  "create_table_check B n force (s\<lparr>mode := m\<rparr>) =
     (fst (create_table_check B n force s), (snd (create_table_check B n force s))\<lparr>mode := m\<rparr>)"
  by (simp add: create_table_check_def is_table_existed_mode drop_table_mode)

lemma create_table_emit_mode:
  "create_table_emit B n cols pk (s\<lparr>mode := m\<rparr>) =
     (fst (create_table_emit B n cols pk s), (snd (create_table_emit B n cols pk s))\<lparr>mode := m\<rparr>)"
  by (cases "issue B (CursorExecute (cursor s)
        (''CREATE TABLE '' @ n @ ''('' @ join '','' cols @
           (case pk of None \<Rightarrow> [] | Some p \<Rightarrow> '',PRIMARY KEY('' @ join '','' p @ '')'') @ '')'')) s")
     (auto simp add: create_table_emit_def issue_mode split: sum.splits)

lemma commit_frame:
  "table_map (snd (commit B s)) = table_map s"
  "heap (snd (commit B s)) = heap s"
  by (simp_all add: commit_def driver_defs split: option.splits)

lemma set_foreign_key_check_frame:
  "table_map (snd (set_foreign_key_check B v s)) = table_map s"
  "heap (snd (set_foreign_key_check B v s)) = heap s"
  by (simp_all add: set_foreign_key_check_def driver_defs split: option.splits)

lemma close_frame:
  "heap (snd (close B s)) = heap s"
  "table_map (snd (close B s)) = table_map s \<or> table_map (snd (close B s)) = Map.empty"
  by (simp_all add: close_def driver_defs split: option.splits)

lemma get_cached: "table_map s n = Some h \<Longrightarrow> get n s = (Inr h, s)"
  by (simp add: get_def ensure_table_obj_def dom_def)

lemma get_constructs:
  "table_map s n = None \<Longrightarrow>
     get n s = (Inr (length (heap s)),
                s\<lparr>heap := heap s @ [\<lparr>table_name = n, table_cursor = cursor s\<rparr>],
                  table_map := (table_map s)(n \<mapsto> length (heap s))\<rparr>)"
  by (simp add: get_def ensure_table_obj_def get_table_obj_def dom_def)

subsection \<open>A cached handle stays until close\<close>

lemma get_keeps_entry:
  "table_map s n = Some h \<Longrightarrow> table_map (snd (get n' s)) n = Some h"
  by (cases "table_map s n'") (auto simp add: get_constructs get_cached)

lemma step_keeps_entry:
  "Close \<noteq> c \<Longrightarrow> table_map s n = Some h \<Longrightarrow> table_map (step B c s) n = Some h"
  by (cases c)
     (simp_all add: get_keeps_entry commit_frame set_foreign_key_check_frame
        create_table_frame drop_table_frame)

lemma run_keeps_entry:
  "Close \<notin> set cs \<Longrightarrow> table_map s n = Some h \<Longrightarrow> table_map (run B cs s) n = Some h"
  by (induction cs arbitrary: s) (simp_all add: step_keeps_entry)

subsection \<open>References of the table map denote constructed objects\<close>

lemma init_allocated: "Database_init B conn m = Inr s \<Longrightarrow> allocated s"
  by (auto simp add: Database_init_def allocated_def split: option.splits)

lemma get_allocated: "allocated s \<Longrightarrow> allocated (snd (get n' s))"
  by (cases "table_map s n'") (auto simp add: get_constructs get_cached allocated_def less_Suc_eq)

lemma close_allocated: "allocated s \<Longrightarrow> allocated (snd (close B s))"
  using close_frame [of B s] by (auto simp add: allocated_def)

lemma step_allocated: "allocated s \<Longrightarrow> allocated (step B c s)"
  by (cases c)
     (simp_all add: get_allocated close_allocated,
      simp_all add: allocated_def commit_frame set_foreign_key_check_frame
        create_table_frame drop_table_frame)

lemma run_allocated: "allocated s \<Longrightarrow> allocated (run B cs s)"
  by (induction cs arbitrary: s) (simp_all add: step_allocated)

lemma get_result_allocated:
  "allocated s \<Longrightarrow> get n s = (Inr h, s1) \<Longrightarrow> h < length (heap s1)"
  by (cases "table_map s n") (auto simp add: get_constructs get_cached allocated_def)

lemma get_heap_mono: "length (heap s) \<le> length (heap (snd (get n s)))"
  by (cases "table_map s n") (auto simp add: get_constructs get_cached)

lemma step_heap_mono: "length (heap s) \<le> length (heap (step B c s))"
  by (cases c)
     (simp_all add: get_heap_mono close_frame commit_frame set_foreign_key_check_frame
        create_table_frame drop_table_frame)

lemma run_heap_mono: "length (heap s) \<le> length (heap (run B cs s))"
proof (induction cs arbitrary: s)
  case Nil
  show ?case by simp
next
  case (Cons c cs)
  have "length (heap s) \<le> length (heap (step B c s))" by (rule step_heap_mono)
  also have "\<dots> \<le> length (heap (run B cs (step B c s)))" by (rule Cons.IH)
  finally show ?case by simp
qed

lemma close_retires:
  "close B s = (Inr (), s') \<Longrightarrow> h < length (heap s) \<Longrightarrow> retired h s'"
  by (auto simp add: close_def driver_defs retired_def split: option.splits)

lemma get_retired: "retired h s \<Longrightarrow> retired h (snd (get n' s))"
  by (cases "table_map s n'") (auto simp add: get_constructs get_cached retired_def)

lemma close_retired: "retired h s \<Longrightarrow> retired h (snd (close B s))"
  using close_frame [of B s] by (auto simp add: retired_def)

lemma step_retired: "retired h s \<Longrightarrow> retired h (step B c s)"
  by (cases c)
     (simp_all add: get_retired close_retired,
      simp_all add: retired_def commit_frame set_foreign_key_check_frame
        create_table_frame drop_table_frame)

lemma run_retired: "retired h s \<Longrightarrow> retired h (run B cs s)"
  by (induction cs arbitrary: s) (simp_all add: step_retired)

lemma get_of_retired:
  "retired h s \<Longrightarrow> \<exists>h'. fst (get n s) = Inr h' \<and> h' \<noteq> h"
  by (cases "table_map s n") (auto simp add: get_constructs get_cached retired_def)

subsection \<open>The raise of create\_table that comes after the drop\<close>

text \<open>
  \<open>create_table\<close> raises its own exception only for an existing table without
  \<open>force_recreate\<close>, or for an empty primary key. The empty primary key is checked after
  the existence check: on an existing table with \<open>force_recreate\<close> the table is dropped,
  the drop is committed, and only then the exception is raised.
\<close>

lemma create_table_raises_only:
  "fst (create_table B n cols pk force s) = Inl (MonSQLException msg) \<Longrightarrow>
     (is_table_existed B n s \<and> \<not> force) \<or> pk = Some []"
  by (auto simp add: create_table_def drop_table_def driver_defs split: option.splits if_splits)

lemma create_table_force_empty_key:
  assumes "is_table_existed B n s" and "\<forall>h ev. raises B h ev = None"
  shows "create_table B n cols (Some []) True s =
     (Inl (MonSQLException ''PRIMARY KEY MUST AT LEAST CONTAINS ONE COLUMN''),
      s\<lparr>db := db s @ [CursorExecute (cursor s) (''DROP TABLE IF EXISTS '' @ n), DbCommit]\<rparr>)"
  using assms
  by (simp add: create_table_def drop_table_def driver_defs split: option.splits)

section \<open>The claims\<close>

text \<open>
  C5. \<open>is_table_existed(n)\<close> is true exactly when the lower-cased \<open>n\<close> is a member of the
  list that \<open>list_tables()\<close> returns: two names with the same lower-cased form get the
  same answer, and so do a name and its lower-cased form.
\<close>

theorem is_table_existed_lower:
  "is_table_existed B n s = (lower n \<in> set (list_tables B (db s)))
   \<and> (lower n = lower n' \<longrightarrow> is_table_existed B n s = is_table_existed B n' s)
   \<and> is_table_existed B (lower n) s = is_table_existed B n s"
  by (simp add: is_table_existed_def lower_idem)

theorem is_table_existed_lower_witness:
  "lower ''USERS'' = lower ''Users''
   \<and> is_table_existed memory_backend ''USERS'' users_session
   \<and> is_table_existed memory_backend ''Users'' users_session"
proof -
  have same: "lower ''USERS'' = lower ''Users''"
    by (simp add: lower_def lower_char_def)
  from is_table_existed_lower [of memory_backend "''USERS''" users_session "''Users''"] same
  have "is_table_existed memory_backend ''USERS'' users_session =
        is_table_existed memory_backend ''Users'' users_session"
    by blast
  with same users_existed(2) show ?thesis by blast
qed

text \<open>
  C3. With an empty primary-key sequence and no table of that name, \<open>create_table\<close> raises
  the exception of the empty primary key, and the session is unchanged: no call was made
  on the driver, so no CREATE TABLE statement was issued.
\<close>

theorem create_table_empty_primary_key:
  assumes "\<not> is_table_existed B n s"
  shows "create_table B n cols (Some []) force s =
           (Inl (MonSQLException ''PRIMARY KEY MUST AT LEAST CONTAINS ONE COLUMN''), s)"
  using assms by (simp add: create_table_def)

theorem create_table_empty_primary_key_witness:
  "\<not> is_table_existed memory_backend ''orders'' users_session
   \<and> create_table memory_backend ''orders'' [''id INT''] (Some []) False users_session =
       (Inl (MonSQLException ''PRIMARY KEY MUST AT LEAST CONTAINS ONE COLUMN''), users_session)"
  using create_table_empty_primary_key [OF users_existed(3), of "[''id INT'']" False]
    users_existed(3)
  by blast

text \<open>
  C2. On an existing table, \<open>create_table\<close> without \<open>force_recreate\<close> raises
  'TABLE ALREADY EXISTS'. With \<open>force_recreate\<close> and a primary key that is absent or not
  empty it never raises an exception of its own; when it returns, the calls it made on
  the driver are DROP TABLE IF EXISTS, commit, CREATE TABLE, commit, in this order; and it
  returns whenever the driver raises nothing.
\<close>

theorem create_table_existing:
  assumes "is_table_existed B n s"
  shows "create_table B n cols pk False s = (Inl (MonSQLException ''TABLE ALREADY EXISTS''), s)
    \<and> (pk \<noteq> Some [] \<longrightarrow>
         (\<forall>msg. fst (create_table B n cols pk True s) \<noteq> Inl (MonSQLException msg))
       \<and> (fst (create_table B n cols pk True s) = Inr () \<longrightarrow>
            db (snd (create_table B n cols pk True s)) =
              db s @ [CursorExecute (cursor s) (''DROP TABLE IF EXISTS '' @ n), DbCommit,
                      CursorExecute (cursor s)
                        (''CREATE TABLE '' @ n @ ''('' @ join '','' cols @
                           (case pk of None \<Rightarrow> []
                            | Some p \<Rightarrow> '',PRIMARY KEY('' @ join '','' p @ '')'') @ '')''),
                      DbCommit])
       \<and> ((\<forall>h ev. raises B h ev = None) \<longrightarrow> fst (create_table B n cols pk True s) = Inr ()))"
  using assms
  by (cases pk)
     (simp_all add: create_table_def drop_table_def driver_defs split: option.splits)

theorem create_table_existing_witness:
  "is_table_existed memory_backend ''users'' users_session
   \<and> create_table memory_backend ''users'' [''id INT''] None False users_session =
       (Inl (MonSQLException ''TABLE ALREADY EXISTS''), users_session)
   \<and> fst (create_table memory_backend ''users'' [''id INT''] None True users_session) = Inr ()
   \<and> db (snd (create_table memory_backend ''users'' [''id INT''] None True users_session)) =
       db users_session @
         [CursorExecute 0 ''DROP TABLE IF EXISTS users'', DbCommit,
          CursorExecute 0 ''CREATE TABLE users(id INT)'', DbCommit]"
  using create_table_existing [OF users_existed(1), of "[''id INT'']" None]
    users_existed(1) memory_backend_quiet users_cursor
  by simp

text \<open>
  C4. \<open>drop_table\<close> without \<open>silent\<close> on a missing table raises 'TABLE n DOES NOT EXIST'
  and leaves the session unchanged; with \<open>silent\<close> it never raises an exception of its
  own; when it returns, it has executed DROP TABLE IF EXISTS and then committed; and it
  returns whenever the check passes and the driver raises nothing.
\<close>

theorem drop_table_missing:
  "(\<not> is_table_existed B n s \<longrightarrow>
      drop_table B n False s = (Inl (MonSQLException (''TABLE '' @ n @ '' DOES NOT EXIST'')), s))
   \<and> (\<forall>msg. fst (drop_table B n True s) \<noteq> Inl (MonSQLException msg))
   \<and> (fst (drop_table B n silent s) = Inr () \<longrightarrow>
        db (snd (drop_table B n silent s)) =
          db s @ [CursorExecute (cursor s) (''DROP TABLE IF EXISTS '' @ n), DbCommit])
   \<and> ((silent \<or> is_table_existed B n s) \<and> (\<forall>h ev. raises B h ev = None) \<longrightarrow>
        fst (drop_table B n silent s) = Inr ())"
  by (simp add: drop_table_def driver_defs split: option.splits)

theorem drop_table_missing_witness:
  "\<not> is_table_existed memory_backend ''missing'' users_session
   \<and> drop_table memory_backend ''missing'' False users_session =
       (Inl (MonSQLException ''TABLE missing DOES NOT EXIST''), users_session)
   \<and> fst (drop_table memory_backend ''missing'' True users_session) = Inr ()
   \<and> db (snd (drop_table memory_backend ''missing'' True users_session)) =
       db users_session @ [CursorExecute 0 ''DROP TABLE IF EXISTS missing'', DbCommit]"
  using drop_table_missing [of memory_backend "''missing''" users_session True]
    users_existed(4) memory_backend_quiet users_cursor
  by simp

text \<open>
  C6. When \<open>create_table\<close> returns, the last two calls it made on the driver are the
  CREATE TABLE statement on the session's cursor and, right after it, a commit on the
  connection; before them it made either no call or the drop of the old table. The
  transaction mode plays no part: with any other mode the same call returns as well.
\<close>

theorem create_table_commits:
  assumes "create_table B n cols pk force s = (Inr (), s')"
  shows "(\<exists>pre. db s' = db s @ pre @
            [CursorExecute (cursor s)
               (''CREATE TABLE '' @ n @ ''('' @ join '','' cols @
                  (case pk of None \<Rightarrow> []
                   | Some p \<Rightarrow> '',PRIMARY KEY('' @ join '','' p @ '')'') @ '')''),
             DbCommit]
          \<and> (pre = [] \<or>
              pre = [CursorExecute (cursor s) (''DROP TABLE IF EXISTS '' @ n), DbCommit]))
     \<and> create_table B n cols pk force (s\<lparr>mode := m'\<rparr>) = (Inr (), s'\<lparr>mode := m'\<rparr>)"
proof -
  define sql where "sql = ''CREATE TABLE '' @ n @ ''('' @ join '','' cols @
      (case pk of None \<Rightarrow> [] | Some p \<Rightarrow> '',PRIMARY KEY('' @ join '','' p @ '')'') @ '')''"
  define dropped where
    "dropped = [CursorExecute (cursor s) (''DROP TABLE IF EXISTS '' @ n), DbCommit]"
  obtain r1 s1 where check: "create_table_check B n force s = (r1, s1)"
    by (cases "create_table_check B n force s")
  from assms check obtain u where r1: "r1 = Inr u"
    and emit: "create_table_emit B n cols pk s1 = (Inr (), s')"
    by (cases r1) (auto simp add: create_table_phases)
  from check r1 have s1: "s1 = s \<or> s1 = s\<lparr>db := db s @ dropped\<rparr>"
    by (auto simp add: create_table_check_def dropped_def split: if_splits dest: drop_table_ok)
  from emit have key: "pk \<noteq> Some []"
    by (auto simp add: create_table_emit_def)
  obtain r2 s2 where exec: "issue B (CursorExecute (cursor s1) sql) s1 = (r2, s2)"
    by (cases "issue B (CursorExecute (cursor s1) sql) s1")
  from emit key exec obtain u2 where r2: "r2 = Inr u2"
    and comm: "issue B DbCommit s2 = (Inr (), s')"
    by (cases r2) (auto simp add: create_table_emit_def sql_def)
  from exec r2 have s2: "s2 = s1\<lparr>db := db s1 @ [CursorExecute (cursor s1) sql]\<rparr>"
    by (auto dest: issue_ok)
  from comm have s': "s' = s2\<lparr>db := db s2 @ [DbCommit]\<rparr>"
    by (rule issue_ok)
  from s1 s2 s' have "db s' = db s @ [] @ [CursorExecute (cursor s) sql, DbCommit]
      \<or> db s' = db s @ dropped @ [CursorExecute (cursor s) sql, DbCommit]"
    by auto
  then have calls: "\<exists>pre. db s' = db s @ pre @ [CursorExecute (cursor s) sql, DbCommit]
      \<and> (pre = [] \<or> pre = dropped)"
    by blast
  from check have "create_table_check B n force (s\<lparr>mode := m'\<rparr>) = (r1, s1\<lparr>mode := m'\<rparr>)"
    by (simp add: create_table_check_mode)
  moreover from emit have
    "create_table_emit B n cols pk (s1\<lparr>mode := m'\<rparr>) = (Inr (), s'\<lparr>mode := m'\<rparr>)"
    by (simp add: create_table_emit_mode)
  ultimately have "create_table B n cols pk force (s\<lparr>mode := m'\<rparr>) = (Inr (), s'\<lparr>mode := m'\<rparr>)"
    using r1 by (simp add: create_table_phases)
  with calls show ?thesis
    by (simp add: sql_def dropped_def)
qed

theorem create_table_commits_witness:
  "create_table memory_backend ''Users'' [''id INT'', ''name TEXT''] (Some [''id'']) False
       new_session =
     (Inr (), new_session\<lparr>db := [DbCursor,
        CursorExecute 0 ''CREATE TABLE Users(id INT,name TEXT,PRIMARY KEY(id))'', DbCommit]\<rparr>)
   \<and> (\<exists>pre. [DbCursor, CursorExecute 0 ''CREATE TABLE Users(id INT,name TEXT,PRIMARY KEY(id))'',
             DbCommit] =
        [DbCursor] @ pre @
          [CursorExecute 0 ''CREATE TABLE Users(id INT,name TEXT,PRIMARY KEY(id))'', DbCommit])"
proof -
  from create_table_commits [OF create_users, of "()"]
  have "\<exists>pre. db (new_session\<lparr>db := [DbCursor,
          CursorExecute 0 ''CREATE TABLE Users(id INT,name TEXT,PRIMARY KEY(id))'',
          DbCommit]\<rparr>) =
        db new_session @ pre @
          [CursorExecute (cursor new_session)
             (''CREATE TABLE '' @ ''Users'' @ ''('' @ join '','' [''id INT'', ''name TEXT''] @
                (case Some [''id''] of None \<Rightarrow> []
                 | Some p \<Rightarrow> '',PRIMARY KEY('' @ join '','' p @ '')'') @ '')''),
           DbCommit]"
    by blast
  then have "\<exists>pre. [DbCursor,
          CursorExecute 0 ''CREATE TABLE Users(id INT,name TEXT,PRIMARY KEY(id))'', DbCommit] =
        [DbCursor] @ pre @
          [CursorExecute 0 ''CREATE TABLE Users(id INT,name TEXT,PRIMARY KEY(id))'', DbCommit]"
    by (simp add: new_session_def)
  with create_users show ?thesis by blast
qed

text \<open>
  C7. When \<open>close\<close> returns, it has closed the backend connection and the table map is
  empty: no name has a handle, so no handle is reachable through the session.
\<close>

theorem close_clears_table_map:
  assumes "close B s = (Inr (), s')"
  shows "db s' = db s @ [DbClose] \<and> table_map s' = Map.empty \<and> ran (table_map s') = {}"
  using assms by (auto simp add: close_def driver_defs split: option.splits)

theorem close_clears_table_map_witness:
  "table_map users_session ''users'' = Some 0
   \<and> close memory_backend users_session =
       (Inr (), users_session\<lparr>db := db users_session @ [DbClose], table_map := Map.empty\<rparr>)
   \<and> table_map (users_session\<lparr>db := db users_session @ [DbClose], table_map := Map.empty\<rparr>)
       = Map.empty"
proof -
  have closed: "close memory_backend users_session =
       (Inr (), users_session\<lparr>db := db users_session @ [DbClose], table_map := Map.empty\<rparr>)"
    by (simp add: close_def driver_defs memory_backend_def)
  have cached: "table_map users_session ''users'' = Some 0"
    by (simp add: users_session_def)
  from close_clears_table_map [OF closed] cached closed show ?thesis by blast
qed

text \<open>
  C8. On its two error paths, an existing table without \<open>force_recreate\<close> and an empty
  primary key for a table that does not exist, \<open>create_table\<close> raises its exception and
  leaves the whole session as it was: the history of driver calls (no statement, no
  commit), the table map and the store.
\<close>

theorem create_table_raises_unchanged:
  assumes "(is_table_existed B n s \<and> \<not> force) \<or> (\<not> is_table_existed B n s \<and> pk = Some [])"
  shows "\<exists>msg. create_table B n cols pk force s = (Inl (MonSQLException msg), s)"
  using assms by (auto simp add: create_table_def)

theorem create_table_raises_unchanged_witness:
  "(\<exists>msg. create_table memory_backend ''users'' [''id INT''] (Some [''id'']) False
              users_session = (Inl (MonSQLException msg), users_session))
   \<and> (\<exists>msg. create_table memory_backend ''orders'' [''id INT''] (Some []) True
              users_session = (Inl (MonSQLException msg), users_session))"
proof -
  have first: "(is_table_existed memory_backend ''users'' users_session \<and> \<not> False)
      \<or> (\<not> is_table_existed memory_backend ''users'' users_session
          \<and> Some [''id''] = Some [])"
    using users_existed(1) by simp
  have second: "(is_table_existed memory_backend ''orders'' users_session \<and> \<not> True)
      \<or> (\<not> is_table_existed memory_backend ''orders'' users_session
          \<and> (Some [] :: string list option) = Some [])"
    using users_existed(3) by simp
  from create_table_raises_unchanged [OF first, of "[''id INT'']"]
    create_table_raises_unchanged [OF second, of "[''id INT'']"]
  show ?thesis by blast
qed

text \<open>
  C9. Without a primary key, on a table that does not exist, \<open>create_table\<close> never raises
  an exception of its own, and the first call it makes on the driver is the statement
  \<open>CREATE TABLE n(columns)\<close>, the column specifications joined by commas and nothing
  after them; the only call that may follow is the commit.
\<close>

theorem create_table_without_primary_key:
  assumes "\<not> is_table_existed B n s"
  shows "(\<forall>msg. fst (create_table B n cols None force s) \<noteq> Inl (MonSQLException msg))
   \<and> (\<exists>rest. db (snd (create_table B n cols None force s)) =
         db s @ CursorExecute (cursor s) (''CREATE TABLE '' @ n @ ''('' @ join '','' cols @ '')'')
                # rest
         \<and> (rest = [] \<or> rest = [DbCommit]))"
  using assms
  by (simp add: create_table_def drop_table_def driver_defs split: option.splits)

theorem create_table_without_primary_key_witness:
  "\<not> is_table_existed memory_backend ''orders'' users_session
   \<and> (\<forall>msg. fst (create_table memory_backend ''orders'' [''id INT'', ''total INT''] None False
                   users_session) \<noteq> Inl (MonSQLException msg))
   \<and> (\<exists>rest. db (snd (create_table memory_backend ''orders'' [''id INT'', ''total INT''] None
                        False users_session)) =
         db users_session @ CursorExecute 0 ''CREATE TABLE orders(id INT,total INT)'' # rest
         \<and> (rest = [] \<or> rest = [DbCommit]))"
  using create_table_without_primary_key
          [OF users_existed(3), of "[''id INT'', ''total INT'']" False]
    users_existed(3) users_cursor
  by simp

text \<open>
  C1. The first \<open>get(n)\<close> returns a handle and leaves it in the table map. When the name
  was not cached, the handle is the object that \<open>get_table_obj\<close> constructs, and the
  session after the call is the one \<open>get_table_obj\<close> left, with that handle stored under
  \<open>n\<close>; when the name was cached, the handle is the cached one and the session is
  unchanged. After any calls on the session other than \<open>close\<close>, \<open>get(n)\<close> returns the same
  reference, and constructs nothing.
\<close>

theorem get_same_handle:
  assumes "get n s = (r, s1)" and "Close \<notin> set cs"
  shows "\<exists>h. r = Inr h \<and> table_map s1 n = Some h
           \<and> get n (run B cs s1) = (Inr h, run B cs s1)
           \<and> (table_map s n = None \<longrightarrow>
                 h = fst (get_table_obj n s)
               \<and> s1 = (snd (get_table_obj n s))\<lparr>table_map := (table_map s)(n \<mapsto> h)\<rparr>)
           \<and> (table_map s n \<noteq> None \<longrightarrow> table_map s n = Some h \<and> s1 = s)"
proof (cases "table_map s n")
  case None
  from assms(1) have r: "r = Inr (length (heap s))"
    and s1: "table_map s1 n = Some (length (heap s))"
    and st: "s1 = s\<lparr>heap := heap s @ [\<lparr>table_name = n, table_cursor = cursor s\<rparr>],
                    table_map := (table_map s)(n \<mapsto> length (heap s))\<rparr>"
    by (auto simp add: get_constructs [OF None])
  from run_keeps_entry [OF assms(2) s1]
  have later: "get n (run B cs s1) = (Inr (length (heap s)), run B cs s1)"
    by (rule get_cached)
  have "fst (get_table_obj n s) = length (heap s)"
    by (simp add: get_table_obj_def)
  moreover have "s1 = (snd (get_table_obj n s))
      \<lparr>table_map := (table_map s)(n \<mapsto> length (heap s))\<rparr>"
    using st by (simp add: get_table_obj_def)
  ultimately show ?thesis using r s1 later None by simp
next
  case (Some h)
  from assms(1) Some have r: "r = Inr h" and s1: "table_map s1 n = Some h" and st: "s1 = s"
    by (auto simp add: get_cached)
  from run_keeps_entry [OF assms(2) s1]
  have "get n (run B cs s1) = (Inr h, run B cs s1)"
    by (rule get_cached)
  with r s1 st Some show ?thesis by simp
qed

theorem get_same_handle_witness:
  "table_map new_session ''users'' = None
   \<and> get ''users'' new_session =
       (Inr (fst (get_table_obj ''users'' new_session)) :: unit error + ref,
        (snd (get_table_obj ''users'' new_session))\<lparr>table_map := [''users'' \<mapsto> 0]\<rparr>)
   \<and> fst (get ''users''
          (run memory_backend
             [Get ''orders'', CreateTable ''orders'' [''id INT''] None False, Commit,
              SetForeignKeyCheck False, DropTable ''users'' False, IsTableExisted ''users'']
             (new_session\<lparr>heap := [\<lparr>table_name = ''users'', table_cursor = 0\<rparr>],
                            table_map := [''users'' \<mapsto> 0]\<rparr>)))
     = (Inr 0 :: unit error + ref)"
proof -
  have first: "get ''users'' new_session =
      (Inr 0 :: unit error + ref,
       new_session\<lparr>heap := [\<lparr>table_name = ''users'', table_cursor = 0\<rparr>],
                    table_map := [''users'' \<mapsto> 0]\<rparr>)"
    by (simp add: get_def ensure_table_obj_def get_table_obj_def new_session_def)
  have uncached: "table_map new_session ''users'' = None"
    by (simp add: new_session_def)
  have calls: "Close \<notin> set [Get ''orders'', CreateTable ''orders'' [''id INT''] None False,
      Commit, SetForeignKeyCheck False, DropTable ''users'' False, IsTableExisted ''users'']"
    by simp
  from get_same_handle [OF first calls, of memory_backend] uncached
  obtain h where h: "(Inr 0 :: unit error + ref) = Inr h"
    and later: "get ''users''
          (run memory_backend
             [Get ''orders'', CreateTable ''orders'' [''id INT''] None False, Commit,
              SetForeignKeyCheck False, DropTable ''users'' False, IsTableExisted ''users'']
             (new_session\<lparr>heap := [\<lparr>table_name = ''users'', table_cursor = 0\<rparr>],
                            table_map := [''users'' \<mapsto> 0]\<rparr>)) =
         (Inr h :: unit error + ref,
          run memory_backend
             [Get ''orders'', CreateTable ''orders'' [''id INT''] None False, Commit,
              SetForeignKeyCheck False, DropTable ''users'' False, IsTableExisted ''users'']
             (new_session\<lparr>heap := [\<lparr>table_name = ''users'', table_cursor = 0\<rparr>],
                            table_map := [''users'' \<mapsto> 0]\<rparr>))"
    and obj: "h = fst (get_table_obj ''users'' new_session)"
    and st: "new_session\<lparr>heap := [\<lparr>table_name = ''users'', table_cursor = 0\<rparr>],
                          table_map := [''users'' \<mapsto> 0]\<rparr> =
             (snd (get_table_obj ''users'' new_session))
               \<lparr>table_map := (table_map new_session)(''users'' \<mapsto> h)\<rparr>"
    by blast
  from h have h0: "h = 0" by simp
  have "get ''users'' new_session =
       (Inr (fst (get_table_obj ''users'' new_session)) :: unit error + ref,
        (snd (get_table_obj ''users'' new_session))\<lparr>table_map := [''users'' \<mapsto> 0]\<rparr>)"
    using first obj st h0 uncached
    by (simp add: new_session_def get_table_obj_def)
  moreover have "fst (get ''users''
          (run memory_backend
             [Get ''orders'', CreateTable ''orders'' [''id INT''] None False, Commit,
              SetForeignKeyCheck False, DropTable ''users'' False, IsTableExisted ''users'']
             (new_session\<lparr>heap := [\<lparr>table_name = ''users'', table_cursor = 0\<rparr>],
                            table_map := [''users'' \<mapsto> 0]\<rparr>)))
     = (Inr 0 :: unit error + ref)"
    using later h0 by (simp del: run.simps step.simps)
  ultimately show ?thesis using uncached by blast
qed

text \<open>
  C10. In a session built by the constructor, let \<open>h\<close> be a handle that \<open>get(n)\<close>
  returned, and let \<open>close\<close> return later, after any calls. Then the table map has no
  entry for \<open>n\<close>, the next \<open>get(n)\<close> constructs a new object whose reference differs from
  \<open>h\<close>, and every later \<open>get(n)\<close>, after any calls, returns a handle other than \<open>h\<close>.
\<close>

theorem get_after_close_fresh:
  assumes "Database_init B conn m = Inr s0"
    and "get n (run B before s0) = (Inr h, s1)"
    and "close B (run B between s1) = (Inr (), s3)"
  shows "table_map s3 n = None
     \<and> fst (get n s3) = Inr (fst (get_table_obj n s3))
     \<and> fst (get_table_obj n s3) \<noteq> h
     \<and> (\<exists>h'. fst (get n (run B after s3)) = Inr h' \<and> h' \<noteq> h)"
proof -
  have "allocated (run B before s0)"
    using assms(1) by (intro run_allocated init_allocated)
  then have "h < length (heap s1)"
    using assms(2) by (rule get_result_allocated)
  also have "\<dots> \<le> length (heap (run B between s1))"
    by (rule run_heap_mono)
  finally have ret: "retired h s3"
    using assms(3) by (intro close_retires)
  have empty: "table_map s3 n = None"
    using assms(3) by (auto simp add: close_def driver_defs split: option.splits)
  have fresh: "fst (get n s3) = Inr (fst (get_table_obj n s3))"
    by (simp add: get_constructs [OF empty] get_table_obj_def)
  have "fst (get_table_obj n s3) \<noteq> h"
    using ret by (simp add: retired_def get_table_obj_def)
  moreover have "\<exists>h'. fst (get n (run B after s3)) = Inr h' \<and> h' \<noteq> h"
    using ret by (intro get_of_retired run_retired)
  ultimately show ?thesis using empty fresh by simp
qed

theorem get_after_close_fresh_witness:
  "\<exists>h'. fst (get ''users''
              (run memory_backend [Get ''orders'', Get ''users'']
                 (users_session\<lparr>db := db users_session @ [DbClose], table_map := Map.empty\<rparr>)))
          = (Inr h' :: unit error + ref)
        \<and> h' \<noteq> 0"
proof -
  have first: "get ''users''
       (run memory_backend
          [CreateTable ''Users'' [''id INT'', ''name TEXT''] (Some [''id'']) False] new_session) =
     (Inr 0 :: unit error + ref, users_session)"
    by (simp add: create_users get_def ensure_table_obj_def get_table_obj_def)
       (simp add: new_session_def users_session_def)
  have closed: "close memory_backend (run memory_backend [] users_session) =
      (Inr (), users_session\<lparr>db := db users_session @ [DbClose], table_map := Map.empty\<rparr>)"
    by (simp add: close_def driver_defs memory_backend_def)
  from get_after_close_fresh
         [OF new_session_init first closed, where after = "[Get ''orders'', Get ''users'']"]
  show ?thesis by blast
qed

end
